theory Spec2Isabelle
  imports Main
begin

section \<open>The poll server (server.js): data\<close>

text \<open>
  A property of the JavaScript object \<open>params\<close> is absent until it is assigned, and
  the handlers assign \<open>null\<close> as well as values: the three cases are kept apart.
\<close>

datatype 'a field = Unset | Null | Val 'a

text \<open>
  What a call of the database helper returns: an array of rows, or a falsy value (the
  handlers only test the result for truthiness; an empty array is truthy in JavaScript).
  \<open>Falsy\<close> also stands for the \<open>undefined\<close> of a variable that was never assigned.
\<close>

datatype 'a dbres = Falsy | Rows "'a list"

fun is_truthy :: "'a dbres \<Rightarrow> bool" where
  "is_truthy Falsy = False"
| "is_truthy (Rows xs) = True"

text \<open>A row of the choices table, as the handlers read it (\<open>choice.language\<close>, \<open>choice.picks\<close>).\<close>

record option_row =
  language :: string
  picks :: nat

text \<open>A row of the vote log; the handlers pass it on without looking inside.\<close>

record log_entry =
  option_name :: string
  timestamp :: nat

type_synonym seo_data = "(string \<times> string) list"

text \<open>
  The ambient configuration: \<open>seo.json\<close>, the two messages of \<open>data.json\<close> and the
  environment variable \<open>ADMIN_KEY\<close> (a string, or undefined). The two JSON files are
  not among the sources, so their contents are parameters.
\<close>

record config =
  seo_json :: seo_data
  errorMessage :: string
  setupMessage :: string
  ADMIN_KEY :: "string option"

text \<open>
  The parsed body of a \<open>POST\<close> request: the two fields the handlers read
  (\<open>request.body.language\<close>, \<open>request.body.key\<close>), each a string or missing.
\<close>

record body =
  body_language :: "string option"
  body_key :: "string option"

text \<open>
  A request: the query flag \<open>raw\<close> and the body. A request sent without a payload has
  no body object at all (\<open>request.body\<close> is undefined): that is \<open>None\<close>.
\<close>

record request =
  raw :: "string option"
  body :: "body option"

text \<open>
  Reading a property of \<open>undefined\<close> throws a \<open>TypeError\<close>. Nothing in the handlers
  catches it, so the handler ends there and the framework answers the request itself
  (Fastify's error reply, status 500) instead of the handler's \<open>params\<close>.
\<close>

datatype js_error = TypeError

text \<open>JavaScript truthiness of a string that may be undefined.\<close>

fun truthy :: "string option \<Rightarrow> bool" where
  "truthy None = False"
| "truthy (Some s) = (s \<noteq> [])"

fun truthy_field :: "string field \<Rightarrow> bool" where
  "truthy_field (Val s) = (s \<noteq> [])"
| "truthy_field Null = False"
| "truthy_field Unset = False"

record params =
  seo :: "seo_data field"
  results :: "bool field"
  optionNames :: "string list field"
  optionCounts :: "nat list field"
  error :: "string field"
  setup_message :: "string field"
  failed :: "string field"
  optionHistory :: "log_entry dbres field"

datatype reply =
    Send (status: nat) (payload: params)
  | View (status: nat) (page: string) (payload: params)

text \<open>
  The database helper \<open>db\<close> is loaded by name from \<open>data.json\<close>; the handlers use
  four of its operations. Each runs against the storage \<open>'s\<close> and returns its result
  with the storage it leaves behind.
\<close>

record 's db =
  getOptions :: "'s \<Rightarrow> option_row dbres \<times> 's"
  processVote :: "string \<Rightarrow> 's \<Rightarrow> option_row dbres \<times> 's"
  getLogs :: "'s \<Rightarrow> log_entry dbres \<times> 's"
  clearHistory :: "'s \<Rightarrow> log_entry dbres \<times> 's"

section \<open>The route handlers\<close>

definition no_params :: params where
  "no_params = \<lparr>seo = Unset, results = Unset, optionNames = Unset, optionCounts = Unset,
     error = Unset, setup_message = Unset, failed = Unset, optionHistory = Unset\<rparr>"

text \<open>\<open>let params = request.query.raw ? {} : { seo: seo }\<close>\<close>

definition init_params :: "config \<Rightarrow> request \<Rightarrow> params" where
  "init_params cfg req =
     (if truthy (raw req) then no_params else no_params\<lparr>seo := Val (seo_json cfg)\<rparr>)"

text \<open>\<open>request.query.raw ? reply.status(st).send(params) : reply.status(st).view(page, params)\<close>\<close>

definition respond :: "request \<Rightarrow> nat \<Rightarrow> string \<Rightarrow> params \<Rightarrow> reply" where
  "respond req st pg p = (if truthy (raw req) then Send st p else View st pg p)"

text \<open>\<open>GET /\<close> (lines 80 to 106). The status is Fastify's default 200.\<close>

definition get_root :: "config \<Rightarrow> request \<Rightarrow> 's db \<Rightarrow> 's \<Rightarrow> reply \<times> 's" where
  "get_root cfg req d s =
     (let p0 = init_params cfg req;
          (opts, s1) = getOptions d s;
          p1 = (case opts of
                  Rows xs \<Rightarrow> p0\<lparr>optionNames := Val (map language xs),
                                 optionCounts := Val (map picks xs)\<rparr>
                | Falsy \<Rightarrow> p0\<lparr>error := Val (errorMessage cfg)\<rparr>);
          p2 = (case opts of
                  Rows xs \<Rightarrow> if length (map language xs) < 1
                             then p1\<lparr>setup_message := Val (setupMessage cfg)\<rparr> else p1
                | Falsy \<Rightarrow> p1)
      in (respond req 200 ''/src/pages/index.hbs'' p2, s1))"

text \<open>
  \<open>POST /\<close> (lines 115 to 138). Line 124 reads \<open>request.body.language\<close>, which throws
  when there is no body; no helper operation has run by then. \<open>options\<close> starts
  undefined and is assigned only inside \<open>if (request.body.language)\<close>; line 132 then
  sets \<open>params.error\<close> from it on every path.
\<close>

definition post_root :: "config \<Rightarrow> request \<Rightarrow> 's db \<Rightarrow> 's \<Rightarrow> (js_error + reply) \<times> 's" where
  "post_root cfg req d s =
     (let p0 = (init_params cfg req)\<lparr>results := Val True\<rparr> in
      case body req of
        None \<Rightarrow> (Inl TypeError, s)
      | Some b \<Rightarrow>
          (let (opts, s1) = (case body_language b of
                               None \<Rightarrow> (Falsy, s)
                             | Some l \<Rightarrow> if l \<noteq> [] then processVote d l s else (Falsy, s));
               p1 = (case opts of
                       Rows xs \<Rightarrow> p0\<lparr>optionNames := Val (map language xs),
                                      optionCounts := Val (map picks xs)\<rparr>
                     | Falsy \<Rightarrow> p0);
               p2 = p1\<lparr>error := (if is_truthy opts then Null else Val (errorMessage cfg))\<rparr>
           in (Inr (respond req 200 ''/src/pages/index.hbs'' p2), s1)))"

text \<open>\<open>GET /logs\<close> (lines 145 to 159).\<close>

definition get_logs :: "config \<Rightarrow> request \<Rightarrow> 's db \<Rightarrow> 's \<Rightarrow> reply \<times> 's" where
  "get_logs cfg req d s =
     (let p0 = init_params cfg req;
          (h, s1) = getLogs d s;
          p1 = p0\<lparr>optionHistory := Val h\<rparr>;
          p2 = p1\<lparr>error := (if is_truthy h then Null else Val (errorMessage cfg))\<rparr>
      in (respond req 200 ''/src/pages/admin.hbs'' p2, s1))"

text \<open>
  The test of lines 249 to 254. Its first disjunct reads \<open>request.body.key\<close>, which
  throws when there is no body. Otherwise JavaScript evaluates the disjunction left to
  right and stops at the first true disjunct, so \<open>key.length\<close> is only read of a string;
  for a missing key the first disjunct already holds. Both sides of \<open>!==\<close> are strings
  or undefined, so it is inequality of the two values.
\<close>

definition auth_fails :: "config \<Rightarrow> request \<Rightarrow> js_error + bool" where
  "auth_fails cfg req =
     (case body req of
        None \<Rightarrow> Inl TypeError
      | Some b \<Rightarrow>
          Inr (\<not> truthy (body_key b) \<or>
               (case body_key b of Some k \<Rightarrow> length k < 1 | None \<Rightarrow> True) \<or>
               \<not> truthy (ADMIN_KEY cfg) \<or>
               body_key b \<noteq> ADMIN_KEY cfg))"

text \<open>
  \<open>POST /reset\<close> (lines 242 to 276). The test comes before every helper call, so a
  request that makes it throw leaves the storage alone.
\<close>

definition post_reset :: "config \<Rightarrow> request \<Rightarrow> 's db \<Rightarrow> 's \<Rightarrow> (js_error + reply) \<times> 's" where
  "post_reset cfg req d s =
     (let p0 = init_params cfg req in
      case auth_fails cfg req of
        Inl e \<Rightarrow> (Inl e, s)
      | Inr fails \<Rightarrow>
          (let (p2, s1) =
                 (if fails then
                    (let p1 = p0\<lparr>failed := Val ''You entered invalid credentials!''\<rparr>;
                         (h, s') = getLogs d s
                     in (p1\<lparr>optionHistory := Val h\<rparr>, s'))
                  else
                    (let (h, s') = clearHistory d s;
                         p1 = p0\<lparr>optionHistory := Val h\<rparr>
                     in (p1\<lparr>error := (if is_truthy h then Null else Val (errorMessage cfg))\<rparr>, s')));
               st = (if truthy_field (failed p2) then 401 else 200)
           in (Inr (respond req st ''/src/pages/admin.hbs'' p2), s1)))"

section \<open>Observing which helper operations a handler calls\<close>

datatype dbcall = CallGetOptions | CallProcessVote string | CallGetLogs | CallClearHistory

text \<open>
  A recording wrapper around any helper: it behaves as the helper does and appends each
  call to a list kept beside the storage.
\<close>

definition spy :: "'s db \<Rightarrow> ('s \<times> dbcall list) db" where
  "spy d =
     \<lparr>getOptions = (\<lambda>(s, tr). case getOptions d s of (r, s') \<Rightarrow> (r, (s', tr @ [CallGetOptions]))),
      processVote = (\<lambda>v (s, tr). case processVote d v s of (r, s') \<Rightarrow> (r, (s', tr @ [CallProcessVote v]))),
      getLogs = (\<lambda>(s, tr). case getLogs d s of (r, s') \<Rightarrow> (r, (s', tr @ [CallGetLogs]))),
      clearHistory = (\<lambda>(s, tr). case clearHistory d s of (r, s') \<Rightarrow> (r, (s', tr @ [CallClearHistory])))\<rparr>"

section \<open>The storage behind the helper\<close>

text \<open>
  Modelled from the spec: the database helper module (\<open>./src/\<close> followed by the name in
  \<open>data.json\<close>) is not among the sources. Section 3 of the specification gives its
  data: options, unique by name, each with a count of picks, and an append-only log of
  vote events. Every operation of section 4.1 returns a sequence or fails
  (\<open>StorageUnavailable\<close>: the backend read or write failed); whether the backend can be
  reached is the flag \<open>available\<close>, and the operations are atomic, so a failed one
  changes nothing.
\<close>

record store =
  options :: "option_row list"
  history :: "log_entry list"
  available :: bool

text \<open>
  Modelled from the spec: the count update of \<open>recordVote\<close>, missing with the helper
  (increments the matching option's picks; names are unique, so at most one row matches).
\<close>

definition increment :: "string \<Rightarrow> option_row list \<Rightarrow> option_row list" where
  "increment name os = map (\<lambda>opt. if language opt = name then opt\<lparr>picks := picks opt + 1\<rparr> else opt) os"

text \<open>
  Modelled from the spec: \<open>listOptions\<close> of the missing helper (a sequence of options or
  a failure; no side effects; the options in the order the storage has them).
\<close>

definition listOptions :: "store \<Rightarrow> option_row dbres \<times> store" where
  "listOptions st = (if available st then (Rows (options st), st) else (Falsy, st))"

text \<open>
  Modelled from the spec: \<open>recordVote\<close> of the missing helper (atomically increments the
  matching option's picks and appends a log entry; a name that matches no option is
  tolerated silently; returns the refreshed option list on success).
\<close>

definition recordVote :: "nat \<Rightarrow> string \<Rightarrow> store \<Rightarrow> option_row dbres \<times> store" where
  "recordVote now name st =
     (if \<not> available st then (Falsy, st)
      else if name \<in> set (map language (options st)) then
        (let st' = st\<lparr>options := increment name (options st),
                       history := history st @ [\<lparr>option_name = name, timestamp = now\<rparr>]\<rparr>
         in (Rows (options st'), st'))
      else (Rows (options st), st))"

text \<open>
  Modelled from the spec: \<open>getHistory\<close> of the missing helper (a sequence of log entries
  or a failure; read-only).
\<close>

definition getHistory :: "store \<Rightarrow> log_entry dbres \<times> store" where
  "getHistory st = (if available st then (Rows (history st), st) else (Falsy, st))"

text \<open>
  Modelled from the spec: the clear behind \<open>resetHistory\<close>, missing with the helper
  (on success atomically resets all picks to zero and empties the log, then returns the
  now-empty history).
\<close>

definition clearAll :: "store \<Rightarrow> log_entry dbres \<times> store" where
  "clearAll st =
     (if available st then
        (let st' = st\<lparr>options := map (\<lambda>opt. opt\<lparr>picks := 0\<rparr>) (options st), history := []\<rparr>
         in (Rows (history st'), st'))
      else (Falsy, st))"

text \<open>The helper over this storage, for a request served at time \<open>now\<close>.\<close>

definition tally_db :: "nat \<Rightarrow> store db" where
  "tally_db now =
     \<lparr>getOptions = listOptions, processVote = recordVote now,
      getLogs = getHistory, clearHistory = clearAll\<rparr>"

definition total_picks :: "store \<Rightarrow> nat" where
  "total_picks st = sum_list (map picks (options st))"

text \<open>A sequence of votes, each with the time it is cast.\<close>

definition votes :: "(string \<times> nat) list \<Rightarrow> store \<Rightarrow> store" where
  "votes vs st = fold (\<lambda>(name, now) s. snd (recordVote now name s)) vs st"

section \<open>The authorization rule as the specification words it\<close>

text \<open>
  Authorized exactly when the provided key is non-empty, the configured key is
  non-empty, and the two are equal. A key that is missing is not a non-empty key.
\<close>

definition authorized :: "string option \<Rightarrow> string option \<Rightarrow> bool" where
  "authorized providedKey configuredKey =
     (case (providedKey, configuredKey) of
        (Some p, Some c) \<Rightarrow> p \<noteq> [] \<and> c \<noteq> [] \<and> p = c
      | _ \<Rightarrow> False)"

text \<open>
  What a request provides as key and as vote: the body's field, and nothing when the
  request has no body.
\<close>

definition provided_key :: "request \<Rightarrow> string option" where
  "provided_key req = (case body req of None \<Rightarrow> None | Some b \<Rightarrow> body_key b)"

definition provided_language :: "request \<Rightarrow> string option" where
  "provided_language req = (case body req of None \<Rightarrow> None | Some b \<Rightarrow> body_language b)"

section \<open>Concrete inputs\<close>

definition cfg_secret :: config where
  "cfg_secret = \<lparr>seo_json = [(''title'', ''Poll'')], errorMessage = ''Whoops! Error connecting to the database'',
     setupMessage = ''Make sure you check out the setup'', ADMIN_KEY = Some ''secret''\<rparr>"

definition req_key :: "string option \<Rightarrow> request" where
  "req_key k = \<lparr>raw = Some ''json'', body = Some \<lparr>body_language = None, body_key = k\<rparr>\<rparr>"

definition req_vote :: "string option \<Rightarrow> request" where
  "req_vote l = \<lparr>raw = Some ''json'', body = Some \<lparr>body_language = l, body_key = None\<rparr>\<rparr>"

text \<open>A request sent with no payload.\<close>

definition req_no_body :: request where
  "req_no_body = \<lparr>raw = Some ''json'', body = None\<rparr>"

definition store_fresh :: store where
  "store_fresh = \<lparr>options = [\<lparr>language = ''go'', picks = 0\<rparr>, \<lparr>language = ''rust'', picks = 0\<rparr>],
     history = [], available = True\<rparr>"

definition store_voted :: store where
  "store_voted = votes [(''go'', 1), (''go'', 2), (''rust'', 3)] store_fresh"

definition store_down :: store where
  "store_down = store_voted\<lparr>available := False\<rparr>"

section \<open>Tally and log\<close>

text \<open>
  The consistency the data model asks of a storage: option names are unique, and the
  picks add up to the number of log entries.
\<close>

definition tally_matches_log :: "store \<Rightarrow> bool" where
  "tally_matches_log st =
     (distinct (map language (options st)) \<and> total_picks st = length (history st))"

text \<open>A sequence of \<open>POST /\<close> requests served one after the other, each at its time.\<close>

definition post_votes :: "config \<Rightarrow> (request \<times> nat) list \<Rightarrow> store \<Rightarrow> store" where
  "post_votes cfg rs st = fold (\<lambda>(req, now) s. snd (post_root cfg req (tally_db now) s)) rs st"


section \<open>The handlers, branch by branch\<close>

lemma status_respond [simp]: "status (respond req st pg p) = st"
  by (simp add: respond_def)

lemma payload_respond [simp]: "payload (respond req st pg p) = p"
  by (simp add: respond_def)

lemma init_params_fields [simp]:
  "failed (init_params cfg req) = Unset"
  "error (init_params cfg req) = Unset"
  "results (init_params cfg req) = Unset"
  "optionNames (init_params cfg req) = Unset"
  "optionCounts (init_params cfg req) = Unset"
  "optionHistory (init_params cfg req) = Unset"
  by (simp_all add: init_params_def no_params_def)

lemma auth_fails_no_body: "body req = None \<Longrightarrow> auth_fails cfg req = Inl TypeError"
  by (simp add: auth_fails_def)

lemma auth_fails_iff:
  "body req = Some b \<Longrightarrow> auth_fails cfg req = Inr (\<not> authorized (body_key b) (ADMIN_KEY cfg))"
  by (cases "body_key b"; cases "ADMIN_KEY cfg") (auto simp: auth_fails_def authorized_def)

lemma auth_fails_provided:
  "auth_fails cfg req =
     (case body req of
        None \<Rightarrow> Inl TypeError
      | Some b \<Rightarrow> Inr (\<not> authorized (provided_key req) (ADMIN_KEY cfg)))"
  by (cases "body req") (simp_all add: auth_fails_no_body auth_fails_iff provided_key_def)

lemma authorized_has_body:
  "authorized (provided_key req) (ADMIN_KEY cfg) \<Longrightarrow> auth_fails cfg req = Inr False"
  by (cases "body req") (simp_all add: auth_fails_iff provided_key_def authorized_def)

lemma post_reset_no_body: "body req = None \<Longrightarrow> post_reset cfg req d s = (Inl TypeError, s)"
  by (simp add: post_reset_def auth_fails_no_body)

lemma post_reset_denied:
  "auth_fails cfg req = Inr True \<Longrightarrow>
   post_reset cfg req d s =
     (Inr (respond req 401 ''/src/pages/admin.hbs''
        ((init_params cfg req)\<lparr>failed := Val ''You entered invalid credentials!'',
                                optionHistory := Val (fst (getLogs d s))\<rparr>)),
      snd (getLogs d s))"
  by (simp add: post_reset_def Let_def case_prod_beta)

lemma post_reset_granted:
  "auth_fails cfg req = Inr False \<Longrightarrow>
   post_reset cfg req d s =
     (Inr (respond req 200 ''/src/pages/admin.hbs''
        ((init_params cfg req)\<lparr>optionHistory := Val (fst (clearHistory d s)),
           error := (if is_truthy (fst (clearHistory d s)) then Null else Val (errorMessage cfg))\<rparr>)),
      snd (clearHistory d s))"
  by (simp add: post_reset_def Let_def case_prod_beta)

text \<open>
  For a request that has a body, the status is 401 exactly when the specification's rule
  denies the key, and 200 otherwise.
\<close>

lemma post_reset_status_with_body:
  "body req = Some b \<Longrightarrow>
   \<exists>r. fst (post_reset cfg req d s) = Inr r \<and>
       status r = (if authorized (body_key b) (ADMIN_KEY cfg) then 200 else 401) \<and>
       failed (payload r) =
         (if authorized (body_key b) (ADMIN_KEY cfg) then Unset
          else Val ''You entered invalid credentials!'')"
  by (cases "authorized (body_key b) (ADMIN_KEY cfg)")
    (simp_all add: post_reset_denied post_reset_granted auth_fails_iff)

text \<open>
  For a request that has a body, the error field is unset on the failure branch and
  assigned only on the authorized one.
\<close>

lemma post_reset_error_with_body:
  "body req = Some b \<Longrightarrow>
   \<exists>r. fst (post_reset cfg req d s) = Inr r \<and>
       error (payload r) =
         (if \<not> authorized (body_key b) (ADMIN_KEY cfg) then Unset
          else if is_truthy (fst (clearHistory d s)) then Null else Val (errorMessage cfg))"
  by (cases "authorized (body_key b) (ADMIN_KEY cfg)")
    (simp_all add: post_reset_denied post_reset_granted auth_fails_iff)

lemma post_root_no_body: "body req = None \<Longrightarrow> post_root cfg req d s = (Inl TypeError, s)"
  by (simp add: post_root_def)

lemma post_root_no_vote:
  "body req = Some b \<Longrightarrow> \<not> truthy (body_language b) \<Longrightarrow>
   post_root cfg req d s =
     (Inr (respond req 200 ''/src/pages/index.hbs''
        ((init_params cfg req)\<lparr>results := Val True, error := Val (errorMessage cfg)\<rparr>)), s)"
  by (cases "body_language b") (simp_all add: post_root_def Let_def)

lemma post_root_vote:
  "body req = Some b \<Longrightarrow> body_language b = Some l \<Longrightarrow> l \<noteq> [] \<Longrightarrow>
   post_root cfg req d s =
     (Inr (respond req 200 ''/src/pages/index.hbs''
        (case fst (processVote d l s) of
           Rows xs \<Rightarrow> (init_params cfg req)\<lparr>results := Val True,
                         optionNames := Val (map language xs), optionCounts := Val (map picks xs),
                         error := Null\<rparr>
         | Falsy \<Rightarrow> (init_params cfg req)\<lparr>results := Val True, error := Val (errorMessage cfg)\<rparr>)),
      snd (processVote d l s))"
  by (cases "fst (processVote d l s)") (simp_all add: post_root_def Let_def case_prod_beta)

lemma post_root_store:
  "snd (post_root cfg req d s) =
     (case provided_language req of
        None \<Rightarrow> s
      | Some l \<Rightarrow> if l = [] then s else snd (processVote d l s))"
proof (cases "body req")
  case None
  then show ?thesis by (simp add: post_root_no_body provided_language_def)
next
  case (Some b)
  show ?thesis
  proof (cases "body_language b")
    case None
    with Some show ?thesis by (simp add: post_root_no_vote provided_language_def)
  next
    case (Some l)
    with \<open>body req = Some b\<close> show ?thesis
      by (cases "l = []") (simp_all add: post_root_no_vote post_root_vote provided_language_def)
  qed
qed

lemma get_root_rows:
  "fst (getOptions d s) = Rows xs \<Longrightarrow>
   get_root cfg req d s =
     (respond req 200 ''/src/pages/index.hbs''
        (if xs = [] then (init_params cfg req)\<lparr>optionNames := Val [], optionCounts := Val [],
                            setup_message := Val (setupMessage cfg)\<rparr>
         else (init_params cfg req)\<lparr>optionNames := Val (map language xs),
                  optionCounts := Val (map picks xs)\<rparr>),
      snd (getOptions d s))"
  by (simp add: get_root_def Let_def case_prod_beta)

lemma get_root_falsy:
  "fst (getOptions d s) = Falsy \<Longrightarrow>
   get_root cfg req d s =
     (respond req 200 ''/src/pages/index.hbs'' ((init_params cfg req)\<lparr>error := Val (errorMessage cfg)\<rparr>),
      snd (getOptions d s))"
  by (simp add: get_root_def Let_def case_prod_beta)

lemma get_root_store: "snd (get_root cfg req d s) = snd (getOptions d s)"
  by (simp add: get_root_def Let_def case_prod_beta)

lemma get_root_counts:
  "optionCounts (payload (fst (get_root cfg req d s))) =
     (case fst (getOptions d s) of Rows xs \<Rightarrow> Val (map picks xs) | Falsy \<Rightarrow> Unset)"
  by (cases "fst (getOptions d s)")
    (simp_all add: get_root_rows get_root_falsy init_params_def no_params_def)

lemma get_root_names:
  "optionNames (payload (fst (get_root cfg req d s))) =
     (case fst (getOptions d s) of Rows xs \<Rightarrow> Val (map language xs) | Falsy \<Rightarrow> Unset)"
  by (cases "fst (getOptions d s)")
    (simp_all add: get_root_rows get_root_falsy init_params_def no_params_def)

lemma get_root_read_only:
  "snd (getOptions d s) = s \<Longrightarrow>
   get_root cfg req d (snd (get_root cfg req d s)) = get_root cfg req d s"
  by (simp add: get_root_store)

lemma get_logs_eq:
  "get_logs cfg req d s =
     (respond req 200 ''/src/pages/admin.hbs''
        ((init_params cfg req)\<lparr>optionHistory := Val (fst (getLogs d s)),
           error := (if is_truthy (fst (getLogs d s)) then Null else Val (errorMessage cfg))\<rparr>),
      snd (getLogs d s))"
  by (simp add: get_logs_def Let_def case_prod_beta)

subsection \<open>The recording wrapper\<close>

lemma getOptions_spy:
  "getOptions (spy d) (s, tr) =
     (fst (getOptions d s), (snd (getOptions d s), tr @ [CallGetOptions]))"
  by (simp add: spy_def case_prod_beta)

lemma processVote_spy:
  "processVote (spy d) v (s, tr) =
     (fst (processVote d v s), (snd (processVote d v s), tr @ [CallProcessVote v]))"
  by (simp add: spy_def case_prod_beta)

lemma getLogs_spy:
  "getLogs (spy d) (s, tr) = (fst (getLogs d s), (snd (getLogs d s), tr @ [CallGetLogs]))"
  by (simp add: spy_def case_prod_beta)

lemma clearHistory_spy:
  "clearHistory (spy d) (s, tr) =
     (fst (clearHistory d s), (snd (clearHistory d s), tr @ [CallClearHistory]))"
  by (simp add: spy_def case_prod_beta)

subsection \<open>The storage\<close>

lemma store_voted_eq:
  "store_voted =
      \<lparr>options = [\<lparr>language = ''go'', picks = 2\<rparr>, \<lparr>language = ''rust'', picks = 1\<rparr>],
       history = [\<lparr>option_name = ''go'', timestamp = 1\<rparr>, \<lparr>option_name = ''go'', timestamp = 2\<rparr>,
                  \<lparr>option_name = ''rust'', timestamp = 3\<rparr>],
       available = True\<rparr>"
  by (simp add: store_voted_def votes_def recordVote_def store_fresh_def increment_def Let_def)

lemma language_increment: "map language (increment name os) = map language os"
  by (induction os) (simp_all add: increment_def)

lemma increment_no_match: "name \<notin> set (map language os) \<Longrightarrow> increment name os = os"
  by (induction os) (auto simp: increment_def)

lemma picks_increment:
  "distinct (map language os) \<Longrightarrow> name \<in> set (map language os) \<Longrightarrow>
   sum_list (map picks (increment name os)) = Suc (sum_list (map picks os))"
proof (induction os)
  case Nil
  then show ?case by simp
next
  case (Cons a os)
  show ?case
  proof (cases "language a = name")
    case True
    with Cons.prems have "name \<notin> set (map language os)" by auto
    then have "increment name os = os" by (rule increment_no_match)
    with True show ?thesis by (simp add: increment_def)
  next
    case False
    with Cons show ?thesis by (simp add: increment_def)
  qed
qed

lemma clearAll_keeps:
  "distinct (map language (options st)) \<Longrightarrow> available st \<Longrightarrow> tally_matches_log (snd (clearAll st))"
  by (simp add: tally_matches_log_def clearAll_def total_picks_def Let_def comp_def)

lemma recordVote_keeps:
  "tally_matches_log st \<Longrightarrow> tally_matches_log (snd (recordVote now name st))"
  by (simp add: tally_matches_log_def recordVote_def total_picks_def Let_def
      language_increment picks_increment)

lemma votes_keep: "tally_matches_log st \<Longrightarrow> tally_matches_log (votes vs st)"
  unfolding votes_def
  by (induction vs arbitrary: st) (auto simp: recordVote_keeps)

lemma post_root_keeps:
  "tally_matches_log st \<Longrightarrow> tally_matches_log (snd (post_root cfg req (tally_db now) st))"
  by (cases "provided_language req")
    (simp_all add: post_root_store tally_db_def recordVote_keeps)

lemma post_votes_keep: "tally_matches_log st \<Longrightarrow> tally_matches_log (post_votes cfg rs st)"
  unfolding post_votes_def
  by (induction rs arbitrary: st) (auto simp: post_root_keeps)

subsection \<open>Evaluating the handlers on the concrete inputs\<close>

lemmas eval_defs =
  post_reset_def post_root_def get_root_def get_logs_def auth_fails_def respond_def init_params_def
  req_key_def req_vote_def req_no_body_def cfg_secret_def tally_db_def spy_def
  listOptions_def recordVote_def getHistory_def clearAll_def increment_def
  store_down_def store_voted_eq no_params_def Let_def

section \<open>The claims\<close>

text \<open>
  Claim C1. After every sequence of recorded votes, the sum of all pick counts equals the
  number of log entries: starting from a storage with unique option names whose tally
  matches its log, the two are equal after any sequence of votes, whether applied to the
  storage directly or sent as \<open>POST /\<close> requests.
\<close>

theorem votes_keep_tally_equal_to_log:
  assumes "distinct (map language (options st))"
    and "total_picks st = length (history st)"
  shows "total_picks (votes vs st) = length (history (votes vs st)) \<and>
         total_picks (post_votes cfg rs st) = length (history (post_votes cfg rs st))"
  using assms votes_keep [of st vs] post_votes_keep [of st cfg rs]
  by (simp add: tally_matches_log_def)

theorem votes_keep_tally_equal_to_log_witness:
  "map picks (options (votes [(''go'', 1), (''go'', 2), (''rust'', 3)] store_fresh)) = [2, 1] \<and>
   total_picks (votes [(''go'', 1), (''go'', 2), (''rust'', 3)] store_fresh) = 3 \<and>
   length (history (votes [(''go'', 1), (''go'', 2), (''rust'', 3)] store_fresh)) = 3 \<and>
   total_picks (post_votes cfg_secret [(req_vote (Some ''rust''), 1), (req_vote None, 2)] store_fresh) = 1 \<and>
   length (history (post_votes cfg_secret [(req_vote (Some ''rust''), 1), (req_vote None, 2)] store_fresh)) = 1"
proof -
  have d: "distinct (map language (options store_fresh))"
    by (simp add: store_fresh_def)
  have t: "total_picks store_fresh = length (history store_fresh)"
    by (simp add: store_fresh_def total_picks_def)
  have v: "votes [(''go'', 1), (''go'', 2), (''rust'', 3)] store_fresh = store_voted"
    by (simp add: store_voted_def)
  have p: "history (post_votes cfg_secret [(req_vote (Some ''rust''), 1), (req_vote None, 2)] store_fresh) =
      [\<lparr>option_name = ''rust'', timestamp = 1\<rparr>]"
    by (simp add: post_votes_def post_root_no_vote post_root_vote [where l = "''rust''"] req_vote_def
        tally_db_def recordVote_def store_fresh_def Let_def)
  note w = votes_keep_tally_equal_to_log [OF d t,
      of "[(''go'', 1), (''go'', 2), (''rust'', 3)]" cfg_secret
        "[(req_vote (Some ''rust''), 1), (req_vote None, 2)]", unfolded v p]
  show ?thesis
    unfolding v p using w by (simp add: store_voted_eq)
qed

text \<open>
  Claim C2. For every \<open>POST /reset\<close> request, authorization fails unless the provided
  key is non-empty, the configured \<open>ADMIN_KEY\<close> is non-empty and the two are equal, and
  the status is 401 on failure and 200 otherwise. A request sent without a body provides
  no key, so by this rule it fails authorization and is owed a 401; the handler instead
  throws at line 250, before either branch, and sends no reply of its own. (For every
  request that has a body the claim holds: \<open>post_reset_status_with_body\<close>.)
\<close>

theorem reset_without_body_throws:
  "provided_key req_no_body = None \<and>
   \<not> authorized (provided_key req_no_body) (ADMIN_KEY cfg_secret) \<and>
   post_reset cfg_secret req_no_body (tally_db 4) store_voted = (Inl TypeError, store_voted) \<and>
   fst (post_reset cfg_secret (req_key None) (tally_db 4) store_voted) =
     Inr (Send 401 (no_params\<lparr>failed := Val ''You entered invalid credentials!'',
                               optionHistory := Val (Rows (history store_voted))\<rparr>))"
  by (simp add: provided_key_def authorized_def eval_defs)

text \<open>
  Claim C3, as stated: for every \<open>POST /reset\<close> request that fails authorization the
  response carries the current unmodified history. The failure branch passes on whatever
  \<open>getLogs\<close> returns without looking at it: with a wrong key against a storage that
  cannot be read, the response carries the falsy result while three entries are stored.
\<close>

theorem reset_denied_carries_falsy_read:
  "auth_fails cfg_secret (req_key (Some ''wrong'')) = Inr True \<and>
   fst (post_reset cfg_secret (req_key (Some ''wrong'')) (tally_db 4) store_down) =
     Inr (Send 401 (no_params\<lparr>failed := Val ''You entered invalid credentials!'',
                               optionHistory := Val Falsy\<rparr>)) \<and>
   length (history (snd (post_reset cfg_secret (req_key (Some ''wrong'')) (tally_db 4) store_down))) = 3"
  by (simp add: eval_defs)

text \<open>
  Claim C3, amended. For every \<open>POST /reset\<close> request that has a body and fails
  authorization (the test of lines 249 to 254 is true), no mutating storage operation
  occurs: with any helper the only call made is \<open>getLogs\<close>, the storage is left as that
  read leaves it, and the outcome does not depend on what \<open>clearHistory\<close> or
  \<open>processVote\<close> would do. The response has status 401 and the failure flag, and its
  \<open>optionHistory\<close> is whatever that read returned, a falsy result included.
\<close>

theorem reset_denied_only_reads_history:
  assumes "auth_fails cfg req = Inr True"
  shows "(\<exists>r. fst (post_reset cfg req d s) = Inr r \<and>
              status r = 401 \<and>
              failed (payload r) = Val ''You entered invalid credentials!'' \<and>
              optionHistory (payload r) = Val (fst (getLogs d s))) \<and>
         snd (post_reset cfg req d s) = snd (getLogs d s) \<and>
         snd (snd (post_reset cfg req (spy d) (s, []))) = [CallGetLogs] \<and>
         post_reset cfg req (d\<lparr>clearHistory := f, processVote := g\<rparr>) s = post_reset cfg req d s"
  using assms by (simp add: post_reset_denied getLogs_spy)

theorem reset_denied_only_reads_history_witness:
  "auth_fails cfg_secret (req_key (Some ''wrong'')) = Inr True \<and>
   fst (post_reset cfg_secret (req_key (Some ''wrong'')) (tally_db 4) store_voted) =
     Inr (Send 401 (no_params\<lparr>failed := Val ''You entered invalid credentials!'',
                               optionHistory := Val (Rows (history store_voted))\<rparr>)) \<and>
   snd (post_reset cfg_secret (req_key (Some ''wrong'')) (tally_db 4) store_voted) = store_voted \<and>
   snd (snd (post_reset cfg_secret (req_key (Some ''wrong'')) (spy (tally_db 4)) (store_voted, []))) =
     [CallGetLogs]"
proof -
  have h: "auth_fails cfg_secret (req_key (Some ''wrong'')) = Inr True"
    by (simp add: auth_fails_def cfg_secret_def req_key_def)
  have a: "available store_voted"
    by (simp add: store_voted_eq)
  have g: "getLogs (tally_db 4) store_voted = (Rows (history store_voted), store_voted)"
    using a by (simp add: tally_db_def getHistory_def)
  have r: "fst (post_reset cfg_secret (req_key (Some ''wrong'')) (tally_db 4) store_voted) =
     Inr (Send 401 (no_params\<lparr>failed := Val ''You entered invalid credentials!'',
                               optionHistory := Val (Rows (history store_voted))\<rparr>))"
    by (simp add: eval_defs)
  show ?thesis
    using h r reset_denied_only_reads_history [OF h, of "tally_db 4" store_voted]
    by (simp add: g)
qed

text \<open>
  Claim C4, as stated: for every \<open>POST /reset\<close> request with the right key the history is
  cleared, all pick counts become zero and \<open>optionHistory\<close> is the now-empty history. It
  fails when the clear operation itself fails, the case line 267 of the handler checks
  for: with the right key and a storage that cannot be reached the reply still has status
  200, but \<open>optionHistory\<close> is the falsy result, \<open>error\<close> is the generic message, and the
  counts and the log are as before.
\<close>

theorem reset_on_failing_storage_clears_nothing:
  "authorized (provided_key (req_key (Some ''secret''))) (ADMIN_KEY cfg_secret) \<and>
   fst (post_reset cfg_secret (req_key (Some ''secret'')) (tally_db 4) store_down) =
     Inr (Send 200 (no_params\<lparr>optionHistory := Val Falsy,
                               error := Val ''Whoops! Error connecting to the database''\<rparr>)) \<and>
   map picks (options (snd (post_reset cfg_secret (req_key (Some ''secret'')) (tally_db 4) store_down))) =
     [2, 1] \<and>
   length (history (snd (post_reset cfg_secret (req_key (Some ''secret'')) (tally_db 4) store_down))) = 3"
  by (simp add: authorized_def provided_key_def eval_defs)

text \<open>
  Claim C4, amended. For every \<open>POST /reset\<close> request whose key is non-empty and equals
  the non-empty configured \<open>ADMIN_KEY\<close>, the response status is 200 with no failure
  flag, \<open>clearHistory\<close> is the one helper operation called, \<open>optionHistory\<close> is what it
  returned, \<open>error\<close> is null when that result is truthy and the generic message when it
  is falsy, and the storage is what the call left. When the storage is available, so that
  the clear succeeds, the history is empty afterwards, every pick count is zero (the
  options themselves stay), \<open>optionHistory\<close> is the now-empty history and \<open>error\<close> is
  null. When it is not, nothing is cleared: the storage is unchanged, \<open>optionHistory\<close>
  is the falsy result and \<open>error\<close> is the generic message.
\<close>

theorem reset_granted_clears_when_storage_succeeds:
  assumes "authorized (provided_key req) (ADMIN_KEY cfg)"
  shows "(\<exists>r. fst (post_reset cfg req d s) = Inr r \<and>
              status r = 200 \<and>
              failed (payload r) = Unset \<and>
              optionHistory (payload r) = Val (fst (clearHistory d s)) \<and>
              error (payload r) =
                (if is_truthy (fst (clearHistory d s)) then Null else Val (errorMessage cfg))) \<and>
         snd (post_reset cfg req d s) = snd (clearHistory d s) \<and>
         snd (snd (post_reset cfg req (spy d) (s, []))) = [CallClearHistory] \<and>
         (available st \<longrightarrow>
            (\<exists>r. fst (post_reset cfg req (tally_db now) st) = Inr r \<and>
                 status r = 200 \<and>
                 optionHistory (payload r) = Val (Rows []) \<and>
                 error (payload r) = Null) \<and>
            history (snd (post_reset cfg req (tally_db now) st)) = [] \<and>
            map picks (options (snd (post_reset cfg req (tally_db now) st))) =
              replicate (length (options st)) 0 \<and>
            map language (options (snd (post_reset cfg req (tally_db now) st))) =
              map language (options st)) \<and>
         (\<not> available st \<longrightarrow>
            (\<exists>r. fst (post_reset cfg req (tally_db now) st) = Inr r \<and>
                 status r = 200 \<and>
                 optionHistory (payload r) = Val Falsy \<and>
                 error (payload r) = Val (errorMessage cfg)) \<and>
            snd (post_reset cfg req (tally_db now) st) = st)"
  using authorized_has_body [OF assms]
  by (simp add: post_reset_granted clearHistory_spy tally_db_def clearAll_def Let_def
      comp_def map_replicate_const)

theorem reset_granted_clears_when_storage_succeeds_witness:
  "fst (post_reset cfg_secret (req_key (Some ''secret'')) (tally_db 4) store_voted) =
     Inr (Send 200 (no_params\<lparr>optionHistory := Val (Rows []), error := Null\<rparr>)) \<and>
   history (snd (post_reset cfg_secret (req_key (Some ''secret'')) (tally_db 4) store_voted)) = [] \<and>
   map picks (options (snd (post_reset cfg_secret (req_key (Some ''secret'')) (tally_db 4) store_voted))) =
     [0, 0] \<and>
   snd (post_reset cfg_secret (req_key (Some ''secret'')) (tally_db 4) store_down) = store_down"
proof -
  have h: "authorized (provided_key (req_key (Some ''secret''))) (ADMIN_KEY cfg_secret)"
    by (simp add: authorized_def provided_key_def req_key_def cfg_secret_def)
  have a: "available store_voted"
    by (simp add: store_voted_eq)
  have n: "\<not> available store_down"
    by (simp add: store_down_def)
  have l: "replicate (length (options store_voted)) (0::nat) = [0, 0]"
    by (simp add: store_voted_eq)
  have r: "fst (post_reset cfg_secret (req_key (Some ''secret'')) (tally_db 4) store_voted) =
     Inr (Send 200 (no_params\<lparr>optionHistory := Val (Rows []), error := Null\<rparr>))"
    by (simp add: eval_defs)
  show ?thesis
    using a n l r
      reset_granted_clears_when_storage_succeeds [OF h, of "tally_db 4" store_voted store_voted 4]
      reset_granted_clears_when_storage_succeeds [OF h, of "tally_db 4" store_voted store_down 4]
    by auto
qed

text \<open>
  Claim C5. For every \<open>POST /\<close> request whose body has an empty or missing language
  field, no vote is recorded: with any helper no operation is called at all, the storage
  (and with it every pick count) is unchanged, and the outcome does not depend on what
  \<open>processVote\<close> would do. The same holds of a request with no body, which provides no
  language either.
\<close>

theorem empty_vote_records_nothing:
  assumes "\<not> truthy (provided_language req)"
  shows "snd (post_root cfg req d s) = s \<and>
         snd (post_root cfg req (spy d) (s, [])) = (s, []) \<and>
         post_root cfg req (d\<lparr>processVote := f\<rparr>) s = post_root cfg req d s"
proof (cases "body req")
  case None
  then show ?thesis by (simp add: post_root_no_body)
next
  case (Some b)
  with assms have "\<not> truthy (body_language b)"
    by (simp add: provided_language_def)
  with Some show ?thesis by (simp add: post_root_no_vote)
qed

theorem empty_vote_records_nothing_witness:
  "snd (post_root cfg_secret (req_vote (Some '''')) (spy (tally_db 4)) (store_voted, [])) = (store_voted, []) \<and>
   snd (post_root cfg_secret (req_vote None) (spy (tally_db 4)) (store_voted, [])) = (store_voted, []) \<and>
   snd (post_root cfg_secret (req_vote None) (tally_db 4) store_voted) = store_voted \<and>
   snd (post_root cfg_secret req_no_body (spy (tally_db 4)) (store_voted, [])) = (store_voted, [])"
proof -
  have h1: "\<not> truthy (provided_language (req_vote (Some '''')))"
    by (simp add: provided_language_def req_vote_def)
  have h2: "\<not> truthy (provided_language (req_vote None))"
    by (simp add: provided_language_def req_vote_def)
  have h3: "\<not> truthy (provided_language req_no_body)"
    by (simp add: provided_language_def req_no_body_def)
  show ?thesis
    using empty_vote_records_nothing [OF h1, of cfg_secret "tally_db 4" store_voted]
      empty_vote_records_nothing [OF h2, of cfg_secret "tally_db 4" store_voted]
      empty_vote_records_nothing [OF h3, of cfg_secret "tally_db 4" store_voted]
    by simp
qed

text \<open>
  Claim C6, as stated: the response to a \<open>POST /\<close> with a missing or empty vote does not
  signal an error condition. It does: line 132 runs on every path, \<open>options\<close> is still
  undefined, and \<open>params.error\<close> becomes the configured error message. The reply to a
  body without a language on a working storage is the very reply a real vote gets when
  the storage is down.
\<close>

theorem missing_vote_sets_error_field:
  "fst (post_root cfg_secret (req_vote None) (tally_db 4) store_voted) =
     Inr (Send 200 (no_params\<lparr>results := Val True,
                               error := Val ''Whoops! Error connecting to the database''\<rparr>)) \<and>
   fst (post_root cfg_secret (req_vote None) (tally_db 4) store_voted) =
     fst (post_root cfg_secret (req_vote (Some ''go'')) (tally_db 4) store_down)"
  by (simp add: eval_defs)

text \<open>
  Claim C6, amended. A \<open>POST /\<close> request whose body is present but has a missing or
  empty language field is treated as no vote rather than a hard error: the handler does
  not throw, answers with status 200, calls no helper operation and leaves the storage
  unchanged. The response carries the results flag and no option names or counts, and
  its \<open>error\<close> field is set to the configured generic error message.
\<close>

theorem missing_vote_is_soft_error:
  assumes "body req = Some b"
    and "\<not> truthy (body_language b)"
  shows "(\<exists>r. fst (post_root cfg req d s) = Inr r \<and>
              status r = 200 \<and>
              results (payload r) = Val True \<and>
              optionNames (payload r) = Unset \<and>
              optionCounts (payload r) = Unset \<and>
              error (payload r) = Val (errorMessage cfg)) \<and>
         snd (post_root cfg req d s) = s \<and>
         snd (snd (post_root cfg req (spy d) (s, []))) = []"
  using assms by (simp add: post_root_no_vote)

theorem missing_vote_is_soft_error_witness:
  "post_root cfg_secret (req_vote None) (tally_db 4) store_voted =
     (Inr (Send 200 (no_params\<lparr>results := Val True,
                                error := Val ''Whoops! Error connecting to the database''\<rparr>)),
      store_voted) \<and>
   snd (snd (post_root cfg_secret (req_vote (Some '''')) (spy (tally_db 4)) (store_voted, []))) = []"
proof -
  have b1: "body (req_vote None) = Some \<lparr>body_language = None, body_key = None\<rparr>"
    by (simp add: req_vote_def)
  have b2: "body (req_vote (Some '''')) = Some \<lparr>body_language = Some '''', body_key = None\<rparr>"
    by (simp add: req_vote_def)
  have r: "fst (post_root cfg_secret (req_vote None) (tally_db 4) store_voted) =
     Inr (Send 200 (no_params\<lparr>results := Val True,
                               error := Val ''Whoops! Error connecting to the database''\<rparr>))"
    by (simp add: eval_defs)
  show ?thesis
    using r missing_vote_is_soft_error [OF b1, of cfg_secret "tally_db 4" store_voted]
      missing_vote_is_soft_error [OF b2, of cfg_secret "tally_db 4" store_voted]
    by (simp add: prod_eq_iff)
qed

text \<open>
  Claim C7, as stated: on \<open>GET /\<close>, \<open>POST /\<close> and \<open>GET /logs\<close> the error field is the
  generic message when the storage call returns a falsy result, and otherwise no error is
  reported. The second half fails for \<open>POST /\<close>: with an empty language no storage call
  is made (and the storage would have answered), yet the error field is the generic
  message.
\<close>

theorem error_without_storage_call:
  "snd (snd (post_root cfg_secret (req_vote (Some '''')) (spy (tally_db 4)) (store_voted, []))) = [] \<and>
   is_truthy (fst (getOptions (tally_db 4) store_voted)) \<and>
   is_truthy (fst (processVote (tally_db 4) '''' store_voted)) \<and>
   fst (post_root cfg_secret (req_vote (Some '''')) (spy (tally_db 4)) (store_voted, [])) =
     Inr (Send 200 (no_params\<lparr>results := Val True, error := Val (errorMessage cfg_secret)\<rparr>))"
  by (simp add: eval_defs)

text \<open>
  Claim C7, amended. On \<open>GET /\<close> and \<open>GET /logs\<close>, and on a \<open>POST /\<close> that has a body,
  when the storage call returns a falsy result the error field is the single configured
  generic message. On such a \<open>POST /\<close> it is that same message also when the language
  field is missing or empty, where no storage call is made. In every other case no error
  is reported: the field is absent on \<open>GET /\<close> and null on \<open>POST /\<close> and \<open>GET /logs\<close>.
\<close>

theorem error_field_of_each_route:
  "error (payload (fst (get_root cfg req d s))) =
     (if is_truthy (fst (getOptions d s)) then Unset else Val (errorMessage cfg)) \<and>
   error (payload (fst (get_logs cfg req d s))) =
     (if is_truthy (fst (getLogs d s)) then Null else Val (errorMessage cfg)) \<and>
   (body req = Some b \<longrightarrow>
      (\<exists>r. fst (post_root cfg req d s) = Inr r \<and>
           error (payload r) =
             (case body_language b of
                None \<Rightarrow> Val (errorMessage cfg)
              | Some l \<Rightarrow> if l = [] then Val (errorMessage cfg)
                          else if is_truthy (fst (processVote d l s)) then Null
                          else Val (errorMessage cfg))) \<and>
      (\<not> truthy (body_language b) \<longrightarrow>
         snd (snd (post_root cfg req (spy d) (s, []))) = []))"
proof -
  have g: "error (payload (fst (get_root cfg req d s))) =
     (if is_truthy (fst (getOptions d s)) then Unset else Val (errorMessage cfg))"
    by (cases "fst (getOptions d s)") (simp_all add: get_root_rows get_root_falsy)
  have l: "error (payload (fst (get_logs cfg req d s))) =
     (if is_truthy (fst (getLogs d s)) then Null else Val (errorMessage cfg))"
    by (simp add: get_logs_eq)
  have p: "\<exists>r. fst (post_root cfg req d s) = Inr r \<and>
           error (payload r) =
             (case body_language b of
                None \<Rightarrow> Val (errorMessage cfg)
              | Some l \<Rightarrow> if l = [] then Val (errorMessage cfg)
                          else if is_truthy (fst (processVote d l s)) then Null
                          else Val (errorMessage cfg))"
    if b: "body req = Some b"
  proof (cases "body_language b")
    case None
    with b show ?thesis by (simp add: post_root_no_vote)
  next
    case (Some l)
    show ?thesis
    proof (cases "l = []")
      case True
      with Some b show ?thesis by (simp add: post_root_no_vote)
    next
      case False
      with Some b show ?thesis
        by (cases "fst (processVote d l s)") (simp_all add: post_root_vote)
    qed
  qed
  have q: "snd (snd (post_root cfg req (spy d) (s, []))) = []"
    if "body req = Some b" and "\<not> truthy (body_language b)"
    using that by (simp add: post_root_no_vote)
  from g l p q show ?thesis by simp
qed

theorem error_field_of_each_route_witness:
  "error (payload (fst (get_root cfg_secret (req_vote None) (tally_db 4) store_down))) =
     Val (errorMessage cfg_secret) \<and>
   error (payload (fst (get_root cfg_secret (req_vote None) (tally_db 4) store_voted))) = Unset \<and>
   error (payload (fst (get_logs cfg_secret (req_vote None) (tally_db 4) store_down))) =
     Val (errorMessage cfg_secret) \<and>
   error (payload (fst (get_logs cfg_secret (req_vote None) (tally_db 4) store_voted))) = Null \<and>
   fst (post_root cfg_secret (req_vote (Some ''go'')) (tally_db 4) store_down) =
     Inr (Send 200 (no_params\<lparr>results := Val True, error := Val (errorMessage cfg_secret)\<rparr>)) \<and>
   fst (post_root cfg_secret (req_vote None) (tally_db 4) store_voted) =
     Inr (Send 200 (no_params\<lparr>results := Val True, error := Val (errorMessage cfg_secret)\<rparr>)) \<and>
   fst (post_root cfg_secret (req_vote (Some ''go'')) (tally_db 4) store_voted) =
     Inr (Send 200 (no_params\<lparr>results := Val True, optionNames := Val [''go'', ''rust''],
                               optionCounts := Val [3, 1], error := Null\<rparr>))"
proof -
  have e: "fst (post_root cfg_secret (req_vote (Some ''go'')) (tally_db 4) store_down) =
     Inr (Send 200 (no_params\<lparr>results := Val True, error := Val (errorMessage cfg_secret)\<rparr>)) \<and>
   fst (post_root cfg_secret (req_vote None) (tally_db 4) store_voted) =
     Inr (Send 200 (no_params\<lparr>results := Val True, error := Val (errorMessage cfg_secret)\<rparr>)) \<and>
   fst (post_root cfg_secret (req_vote (Some ''go'')) (tally_db 4) store_voted) =
     Inr (Send 200 (no_params\<lparr>results := Val True, optionNames := Val [''go'', ''rust''],
                               optionCounts := Val [3, 1], error := Null\<rparr>))"
    by (simp add: eval_defs)
  have t: "fst (getOptions (tally_db 4) store_down) = Falsy"
      "fst (getLogs (tally_db 4) store_down) = Falsy"
      "fst (getOptions (tally_db 4) store_voted) = Rows (options store_voted)"
      "fst (getLogs (tally_db 4) store_voted) = Rows (history store_voted)"
    by (simp_all add: tally_db_def listOptions_def getHistory_def store_down_def store_voted_eq)
  show ?thesis
    using e error_field_of_each_route [of cfg_secret "req_vote None" "tally_db 4" store_down]
      error_field_of_each_route [of cfg_secret "req_vote None" "tally_db 4" store_voted]
    by (simp add: t)
qed

text \<open>
  Claim C8. For every \<open>GET /\<close> request where the storage returns an option list, the
  handler calls \<open>getOptions\<close> and nothing else (its reply does not depend on
  \<open>processVote\<close> or \<open>clearHistory\<close>), and \<open>optionNames\<close> and \<open>optionCounts\<close> are the
  name and count projections of that list in the order given: equal in length, position
  by position of the same option.
\<close>

theorem home_projects_rows_in_order:
  assumes "fst (getOptions d s) = Rows xs"
  shows "optionNames (payload (fst (get_root cfg req d s))) = Val (map language xs) \<and>
         optionCounts (payload (fst (get_root cfg req d s))) = Val (map picks xs) \<and>
         length (map language xs) = length (map picks xs) \<and>
         (\<forall>i<length xs. map language xs ! i = language (xs ! i) \<and> map picks xs ! i = picks (xs ! i)) \<and>
         error (payload (fst (get_root cfg req d s))) = Unset \<and>
         snd (get_root cfg req d s) = snd (getOptions d s) \<and>
         snd (snd (get_root cfg req (spy d) (s, []))) = [CallGetOptions] \<and>
         get_root cfg req (d\<lparr>processVote := f, clearHistory := g\<rparr>) s = get_root cfg req d s"
proof -
  have "snd (snd (get_root cfg req (spy d) (s, []))) = [CallGetOptions]"
    by (simp add: get_root_store getOptions_spy)
  moreover have "get_root cfg req (d\<lparr>processVote := f, clearHistory := g\<rparr>) s = get_root cfg req d s"
    by (simp add: get_root_def)
  ultimately show ?thesis
    using assms by (simp add: get_root_counts get_root_names get_root_store get_root_rows)
qed

theorem home_projects_rows_in_order_witness:
  "optionNames (payload (fst (get_root cfg_secret (req_vote None) (tally_db 4) store_voted))) =
     Val [''go'', ''rust''] \<and>
   optionCounts (payload (fst (get_root cfg_secret (req_vote None) (tally_db 4) store_voted))) = Val [2, 1] \<and>
   snd (get_root cfg_secret (req_vote None) (tally_db 4) store_voted) = store_voted \<and>
   snd (snd (get_root cfg_secret (req_vote None) (spy (tally_db 4)) (store_voted, []))) = [CallGetOptions]"
proof -
  have h: "fst (getOptions (tally_db 4) store_voted) =
      Rows [\<lparr>language = ''go'', picks = 2\<rparr>, \<lparr>language = ''rust'', picks = 1\<rparr>]"
    by (simp add: tally_db_def listOptions_def store_voted_eq)
  have s: "snd (getOptions (tally_db 4) store_voted) = store_voted"
    by (simp add: tally_db_def listOptions_def)
  show ?thesis
    using s home_projects_rows_in_order [OF h, of cfg_secret "req_vote None"]
    by simp
qed

text \<open>
  Claim C9. Calling \<open>GET /\<close> twice with no vote or reset in between returns identical
  option counts (and names) both times: the first call leaves the storage as it was, so
  the second reads the same rows, whatever the two requests' \<open>raw\<close> flags and times.
\<close>

theorem listing_twice_gives_same_counts:
  "snd (get_root cfg req1 (tally_db t1) st) = st \<and>
   optionCounts (payload (fst (get_root cfg req2 (tally_db t2) (snd (get_root cfg req1 (tally_db t1) st))))) =
     optionCounts (payload (fst (get_root cfg req1 (tally_db t1) st))) \<and>
   optionNames (payload (fst (get_root cfg req2 (tally_db t2) (snd (get_root cfg req1 (tally_db t1) st))))) =
     optionNames (payload (fst (get_root cfg req1 (tally_db t1) st))) \<and>
   get_root cfg req1 (tally_db t1) (snd (get_root cfg req1 (tally_db t1) st)) =
     get_root cfg req1 (tally_db t1) st"
proof -
  have s: "snd (get_root cfg req1 (tally_db t1) st) = st"
    by (simp add: get_root_store tally_db_def listOptions_def)
  have g: "getOptions (tally_db t2) = getOptions (tally_db t1)"
    by (simp add: tally_db_def)
  show ?thesis
    by (simp add: s get_root_counts get_root_names g)
qed

theorem listing_twice_gives_same_counts_witness:
  "optionCounts (payload (fst (get_root cfg_secret (req_vote None) (tally_db 5)
      (snd (get_root cfg_secret (req_vote None) (tally_db 4) store_voted))))) = Val [2, 1] \<and>
   optionCounts (payload (fst (get_root cfg_secret (req_vote None) (tally_db 4) store_voted))) = Val [2, 1]"
  using listing_twice_gives_same_counts [of cfg_secret "req_vote None" 4 store_voted "req_vote None" 5]
  by (simp add: get_root_counts tally_db_def listOptions_def store_voted_eq)



end
